theory Spec2Isabelle
  imports Main
begin

section \<open>Values, exceptions and collaborators\<close>

text \<open>
  The handler of \<^verbatim>\<open>bentoml/handlers/tensorflow_tensor_handler.py\<close> works on what
  \<^verbatim>\<open>json.loads\<close> returns: \<^verbatim>\<open>None\<close>, booleans, numbers, strings, lists and dicts.
  A float is kept as mantissa and binary exponent, or as one of the three special values
  that Python's parser accepts; only its truth value matters to the handler. \<open>JBytes\<close>
  is the \<^verbatim>\<open>bytes\<close> object that the base64 decoder puts in place of a marker; the parser
  never produces it. A dict is an association list with distinct keys, as the parser
  builds it, read with \<open>map_of\<close>.
\<close>

datatype pyfloat = Finite int int | PosInf | NegInf | NaN

datatype json =
    JNull
  | JBool bool
  | JInt int
  | JFloat pyfloat
  | JStr string
  | JBytes string
  | JArr "json list"
  | JObj "(string \<times> json) list"

text \<open>
  Every exception of the model is a subclass of Python's \<^verbatim>\<open>Exception\<close>. The two
  parse errors are the classes the handler names in its \<^verbatim>\<open>except\<close> clause;
  \<open>ValueError\<close> is a \<^verbatim>\<open>ValueError\<close> that is neither of them. \<open>ShapeMismatch\<close> is the
  fatal error of the demultiplexer; \<open>Other\<close> stands for whatever else a collaborator
  raises.
\<close>

datatype exn =
    JSONDecodeError
  | UnicodeDecodeError
  | AttributeError string
  | TypeError string
  | IndexError
  | KeyError string
  | ValueError string
  | UnboundLocalError string
  | NotImplementedError string
  | BadInput string
  | BentoMLException string
  | ShapeMismatch
  | Other string

text \<open>\<^verbatim>\<open>SimpleResponse(status, headers, data)\<close> of \<^verbatim>\<open>bentoml.marshal.utils\<close>.\<close>

datatype response = SimpleResponse int "(string \<times> string) list option" string

fun status :: "response \<Rightarrow> int" where
  "status (SimpleResponse s h d) = s"

text \<open>
  \<^verbatim>\<open>SimpleRequest\<close>: the body and the header dict with lower-case names that the
  property \<^verbatim>\<open>formated_headers\<close> gives.
\<close>

record request =
  data :: string
  formated_headers :: "string \<rightharpoonup> string"

text \<open>The HTTP request object: \<^verbatim>\<open>content_type\<close> is \<^verbatim>\<open>None\<close> when the header is missing.\<close>

record http_request =
  content_type :: "string option"
  http_data :: string

text \<open>The AWS Lambda event: \<^verbatim>\<open>event["headers"]\<close> and \<^verbatim>\<open>event["body"]\<close>.\<close>

record lambda_event =
  headers :: "string \<rightharpoonup> string"
  body :: string

text \<open>
  The handler object \<^verbatim>\<open>self\<close> with everything the source file imports or inherits and
  does not define: the header name and the configuration of \<^verbatim>\<open>BentoHandler\<close>, the
  library calls \<^verbatim>\<open>json.loads\<close>, \<^verbatim>\<open>tf.constant\<close>, \<^verbatim>\<open>bytes.decode\<close>,
  \<^verbatim>\<open>traceback.format_exc\<close> and \<^verbatim>\<open>ArgumentParser.parse_known_args\<close>, the converter
  \<^verbatim>\<open>decode_b64_if_needed\<close> and the output adapter. Each call that can raise returns a
  sum. \<open>'t\<close> is the tensor, \<open>'r\<close> the result of the computation (in the batch pipeline:
  one row of it), \<open>'w\<close> what an adapter sends back.
\<close>

record ('t, 'r, 'w) handler =
  BATCH_REQUEST_HEADER :: string
  is_batch_input :: bool
  json_loads :: "string \<Rightarrow> exn + json"
  decode_b64_if_needed :: "json \<Rightarrow> exn + json"
  tf_constant :: "json \<Rightarrow> exn + 't"
  decode_utf8 :: "string \<Rightarrow> exn + string"
  format_exc :: "exn \<Rightarrow> string"
  parse_known_args :: "string list \<Rightarrow> exn + (string \<times> string list)"
  to_response :: "'r \<Rightarrow> http_request \<Rightarrow> exn + 'w"
  to_cli :: "'r \<Rightarrow> string list \<Rightarrow> exn + 'w"
  to_aws_lambda_event :: "'r \<Rightarrow> lambda_event \<Rightarrow> exn + 'w"
  format_output :: "'r list \<Rightarrow> request \<Rightarrow> response"

section \<open>Python primitives the handler uses\<close>

text \<open>\<^verbatim>\<open>x.get(key)\<close>: a dict gives the value or \<^verbatim>\<open>None\<close>; nothing else has the method.\<close>

definition dict_get :: "(string \<times> json) list \<Rightarrow> string \<Rightarrow> json" where
  "dict_get kvs k = (case map_of kvs k of None \<Rightarrow> JNull | Some v \<Rightarrow> v)"

fun py_get :: "json \<Rightarrow> string \<Rightarrow> exn + json" where
  "py_get (JObj kvs) k = Inr (dict_get kvs k)"
| "py_get v k = Inl (AttributeError ''get'')"

text \<open>The truth value Python gives a parsed value in a condition.\<close>

fun truthy :: "json \<Rightarrow> bool" where
  "truthy JNull = False"
| "truthy (JBool b) = b"
| "truthy (JInt n) = (n \<noteq> 0)"
| "truthy (JFloat (Finite m e)) = (m \<noteq> 0)"
| "truthy (JFloat f) = True"
| "truthy (JStr s) = (s \<noteq> [])"
| "truthy (JBytes s) = (s \<noteq> [])"
| "truthy (JArr xs) = (xs \<noteq> [])"
| "truthy (JObj kvs) = (kvs \<noteq> [])"

text \<open>\<^verbatim>\<open>str.lower\<close> on the ASCII letters of a header name.\<close>

definition lower_char :: "char \<Rightarrow> char" where
  "lower_char c =
     (let n = (of_char c :: nat) in if 65 \<le> n \<and> n \<le> 90 then char_of (n + 32) else c)"

definition lower :: "string \<Rightarrow> string" where
  "lower s = map lower_char s"

section \<open>The single-request pipeline\<close>

text \<open>
  \<^verbatim>\<open>_handle_raw_str\<close>. The local \<^verbatim>\<open>parsed_tensor\<close> is assigned in the first branch
  only; when neither branch is taken, reading it for the call of \<^verbatim>\<open>func\<close> raises
  \<^verbatim>\<open>UnboundLocalError\<close>.
\<close>

definition handle_raw_str ::
  "('t, 'r, 'w) handler \<Rightarrow> string \<Rightarrow> ('t \<Rightarrow> exn + 'r) \<Rightarrow> exn + 'r" where
  "handle_raw_str self raw_str func =
     (case json_loads self raw_str of
        Inl e \<Rightarrow> Inl e
      | Inr parsed_json \<Rightarrow>
          (case py_get parsed_json ''instances'' of
             Inl e \<Rightarrow> Inl e
           | Inr v \<Rightarrow>
               if v \<noteq> JNull then
                 (case py_get parsed_json ''instances'' of
                    Inl e \<Rightarrow> Inl e
                  | Inr instances \<Rightarrow>
                      (case decode_b64_if_needed self instances of
                         Inl e \<Rightarrow> Inl e
                       | Inr instances' \<Rightarrow>
                           (case tf_constant self instances' of
                              Inl e \<Rightarrow> Inl e
                            | Inr parsed_tensor \<Rightarrow> func parsed_tensor)))
               else
                 (case py_get parsed_json ''inputs'' of
                    Inl e \<Rightarrow> Inl e
                  | Inr w \<Rightarrow>
                      if truthy w then
                        Inl (NotImplementedError ''column format 'inputs' is not implemented'')
                      else Inl (UnboundLocalError ''parsed_tensor''))))"

definition handle_request ::
  "('t, 'r, 'w) handler \<Rightarrow> http_request \<Rightarrow> ('t \<Rightarrow> exn + 'r) \<Rightarrow> exn + 'w" where
  "handle_request self request func =
     (if content_type request = Some ''application/json'' then
        (case decode_utf8 self (http_data request) of
           Inl e \<Rightarrow> Inl e
         | Inr input_str \<Rightarrow>
             (case handle_raw_str self input_str func of
                Inl e \<Rightarrow> Inl e
              | Inr result \<Rightarrow> to_response self result request))
      else
        Inl (BadInput
          ''Request content-type must be 'application/json' for this BentoService API''))"

definition handle_cli ::
  "('t, 'r, 'w) handler \<Rightarrow> string list \<Rightarrow> ('t \<Rightarrow> exn + 'r) \<Rightarrow> exn + 'w" where
  "handle_cli self args func =
     (case parse_known_args self args of
        Inl e \<Rightarrow> Inl e
      | Inr (input, unknown_args) \<Rightarrow>
          (case handle_raw_str self input func of
             Inl e \<Rightarrow> Inl e
           | Inr result \<Rightarrow> to_cli self result unknown_args))"

text \<open>
  \<^verbatim>\<open>handle_aws_lambda_event\<close>. The test reads the header with the default \<^verbatim>\<open>""\<close>;
  the message of the exception reads it again by subscript, which raises \<^verbatim>\<open>KeyError\<close>
  when the header is missing.
\<close>

definition handle_aws_lambda_event ::
  "('t, 'r, 'w) handler \<Rightarrow> lambda_event \<Rightarrow> ('t \<Rightarrow> exn + 'r) \<Rightarrow> exn + 'w" where
  "handle_aws_lambda_event self event func =
     (if (case headers event ''Content-Type'' of None \<Rightarrow> [] | Some v \<Rightarrow> v)
          = ''application/json'' then
        (case handle_raw_str self (body event) func of
           Inl e \<Rightarrow> Inl e
         | Inr result \<Rightarrow> to_aws_lambda_event self result event)
      else
        (case headers event ''Content-Type'' of
           None \<Rightarrow> Inl (KeyError ''Content-Type'')
         | Some ct \<Rightarrow>
             Inl (BentoMLException
               (''BentoML currently doesn't support Content-Type: '' @ ct
                  @ '' for AWS Lambda''))))"

section \<open>The batch pipeline\<close>

text \<open>
  The three lists that \<^verbatim>\<open>handle_batch_request\<close> allocates, one slot per request, and
  fills by index in its loop.
\<close>

record lists =
  instances_list :: "json option list"
  responses :: "response list"
  batch_flags :: "bool option list"

definition bad_resp :: response where
  "bad_resp = SimpleResponse 400 None ''input format error''"

definition init_lists :: "nat \<Rightarrow> lists" where
  "init_lists n =
     \<lparr>instances_list = replicate n None,
      responses = replicate n bad_resp,
      batch_flags = replicate n None\<rparr>"

text \<open>
  The body of the \<^verbatim>\<open>try\<close> statement for request \<open>i\<close>: the lists as the body leaves
  them, and the exception if one stopped it. The flag is stored before the body is parsed.
  The second reading of \<^verbatim>\<open>instances\<close> and its test against \<^verbatim>\<open>None\<close> are in the
  source and kept here.
\<close>

definition try_body ::
  "('t, 'r, 'w) handler \<Rightarrow> nat \<Rightarrow> request \<Rightarrow> lists \<Rightarrow> lists \<times> exn option" where
  "try_body self i request st =
     (let raw_str = data request;
          st1 = st\<lparr>batch_flags := (batch_flags st)
                  [i := Some ((case formated_headers request (lower (BATCH_REQUEST_HEADER self)) of
                                 None \<Rightarrow> (if is_batch_input self then ''true'' else ''false'')
                               | Some v \<Rightarrow> v) = ''true'')]\<rparr>
      in case json_loads self raw_str of
           Inl e \<Rightarrow> (st1, Some e)
         | Inr parsed_json \<Rightarrow>
             (case py_get parsed_json ''instances'' of
                Inl e \<Rightarrow> (st1, Some e)
              | Inr v \<Rightarrow>
                  if v \<noteq> JNull then
                    (case py_get parsed_json ''instances'' of
                       Inl e \<Rightarrow> (st1, Some e)
                     | Inr instances \<Rightarrow>
                         if instances = JNull then (st1, None)
                         else
                           (case decode_b64_if_needed self instances of
                              Inl e \<Rightarrow> (st1, Some e)
                            | Inr instances' \<Rightarrow>
                                (st1\<lparr>instances_list :=
                                       (instances_list st1)[i := Some instances']\<rparr>, None)))
                  else
                    (case py_get parsed_json ''inputs'' of
                       Inl e \<Rightarrow> (st1, Some e)
                     | Inr w \<Rightarrow>
                         if truthy w then
                           (st1\<lparr>responses := (responses st1)
                                  [i := SimpleResponse 501 None
                                          ''Column format 'inputs' not implemented'']\<rparr>, None)
                         else (st1, None))))"

text \<open>
  The two \<^verbatim>\<open>except\<close> clauses: the parse errors pass, any other exception stores the
  500 response with the traceback.
\<close>

definition loop_body ::
  "('t, 'r, 'w) handler \<Rightarrow> nat \<Rightarrow> request \<Rightarrow> lists \<Rightarrow> lists" where
  "loop_body self i request st =
     (case try_body self i request st of
        (st', None) \<Rightarrow> st'
      | (st', Some e) \<Rightarrow>
          if e = JSONDecodeError \<or> e = UnicodeDecodeError then st'
          else st'\<lparr>responses := (responses st')
                 [i := SimpleResponse 500 None
                         (''Internal Server Error: '' @ format_exc self e)]\<rparr>)"

text \<open>\<^verbatim>\<open>for i, request in enumerate(requests)\<close>, from index \<open>i\<close> on.\<close>

fun for_loop ::
  "('t, 'r, 'w) handler \<Rightarrow> nat \<Rightarrow> request list \<Rightarrow> lists \<Rightarrow> lists" where
  "for_loop self i [] st = st"
| "for_loop self i (request # rest) st =
     for_loop self (Suc i) rest (loop_body self i request st)"

text \<open>Lines 110 to 146: the lists when the loop is over.\<close>

definition prepare_batch :: "('t, 'r, 'w) handler \<Rightarrow> request list \<Rightarrow> lists" where
  "prepare_batch self requests = for_loop self 0 requests (init_lists (length requests))"

text \<open>
  Modelled from the spec: \<^verbatim>\<open>concat_list\<close> of \<^verbatim>\<open>bentoml.handlers.utils\<close>, which is
  imported by the handler and is not among the sources. Section 4.2 (Slice-Tracking
  Merger): the requests are visited in order; a request whose flag is true appends each
  of its instances to the flat sequence, a request whose flag is false appends its whole
  instance list as one element, an absent entry appends nothing and receives a
  zero-length range; the range of every request is recorded in the same order. The spec
  speaks of instance lists only: a payload that is not a list cannot be unpacked and is
  a \<open>TypeError\<close> here, and a flag list that ends early is an \<open>IndexError\<close>. A flag slot
  that was never written counts as false.
\<close>

fun merge_loop ::
  "json option list \<Rightarrow> bool option list \<Rightarrow> json list \<Rightarrow> (nat \<times> nat) list
     \<Rightarrow> exn + (json list \<times> (nat \<times> nat) list)" where
  "merge_loop [] fs flat ranges = Inr (flat, ranges)"
| "merge_loop (r # rs) [] flat ranges = Inl IndexError"
| "merge_loop (None # rs) (f # fs) flat ranges =
     merge_loop rs fs flat (ranges @ [(length flat, length flat)])"
| "merge_loop (Some r # rs) (f # fs) flat ranges =
     (if f = Some True then
        (case r of
           JArr xs \<Rightarrow>
             merge_loop rs fs (flat @ xs) (ranges @ [(length flat, length flat + length xs)])
         | _ \<Rightarrow> Inl (TypeError ''instances''))
      else merge_loop rs fs (flat @ [r]) (ranges @ [(length flat, length flat + 1)]))"

text \<open>
  Modelled from the spec: \<^verbatim>\<open>concat_list\<close> itself, the merger of section 4.2 started
  with an empty flat sequence and no range; it returns the flat sequence and one range
  per request.
\<close>

definition concat_list ::
  "json option list \<Rightarrow> bool option list \<Rightarrow> exn + (json list \<times> (nat \<times> nat) list)" where
  "concat_list lst flags = merge_loop lst flags [] []"

text \<open>
  Modelled from the spec: the length \<open>end - start\<close> of a SliceRange (section 3), the
  number of elements of the flat sequence that the request owns.
\<close>

definition range_len :: "nat \<times> nat \<Rightarrow> nat" where
  "range_len rg = snd rg - fst rg"

text \<open>
  Modelled from the spec: one position of the demultiplexer of section 4.4, the fallback
  for a request that contributed nothing and otherwise the formatted slice; the formatter
  is the external output-formatting collaborator.
\<close>

definition demux_one ::
  "('r list \<Rightarrow> request \<Rightarrow> response) \<Rightarrow> 'r list \<Rightarrow> (nat \<times> nat) \<Rightarrow> response \<Rightarrow> request
     \<Rightarrow> response" where
  "demux_one fmt result rg fallback request =
     (if range_len rg = 0 then fallback
      else fmt (take (range_len rg) (drop (fst rg) result)) request)"

text \<open>
  Modelled from the spec: \<^verbatim>\<open>to_batch_response\<close> of the output adapter, which the
  handler calls and which is not among the sources. Section 4.4 (Result Demultiplexer):
  a combined result whose outer dimension differs from the length of the flat sequence
  is the fatal shape mismatch; otherwise position \<open>i\<close> is the fallback of request \<open>i\<close>
  or the slice of the result that its range gives, formatted with the request. The
  handler hands over a list in which every slot holds a response (the 400 response
  unless the loop stored another), so the list itself does not say where a fallback
  was recorded; the model takes the glossary's words, a response substituted for a
  request that never contributed to the flat sequence, and emits the fallback where
  the range is empty. The length of the flat sequence is the sum of the range lengths.
\<close>

definition to_batch_response ::
  "('r list \<Rightarrow> request \<Rightarrow> response) \<Rightarrow> 'r list \<Rightarrow> (nat \<times> nat) list \<Rightarrow> response list
     \<Rightarrow> request list \<Rightarrow> exn + response list" where
  "to_batch_response fmt result slices fallbacks requests =
     (if length result \<noteq> sum_list (map range_len slices) then Inl ShapeMismatch
      else Inr (map (\<lambda>(rg, fallback, request). demux_one fmt result rg fallback request)
                  (zip slices (zip fallbacks requests))))"

text \<open>
  \<^verbatim>\<open>handle_batch_request\<close>. The first component lists the tensors \<^verbatim>\<open>func\<close> was
  called with, in order; the second is what the caller gets: the responses, or the
  exception that left the function.
\<close>

definition handle_batch_request ::
  "('t, 'r, 'w) handler \<Rightarrow> request list \<Rightarrow> ('t \<Rightarrow> exn + 'r list)
     \<Rightarrow> 't list \<times> (exn + response list)" where
  "handle_batch_request self requests func =
     (let st = prepare_batch self requests in
      case concat_list (instances_list st) (batch_flags st) of
        Inl e \<Rightarrow> ([], Inl e)
      | Inr (merged_instances, slices) \<Rightarrow>
          (case tf_constant self (JArr merged_instances) of
             Inl e \<Rightarrow> ([], Inl e)
           | Inr parsed_tensor \<Rightarrow>
               (case func parsed_tensor of
                  Inl e \<Rightarrow> ([parsed_tensor], Inl e)
                | Inr merged_result \<Rightarrow>
                    ([parsed_tensor],
                     to_batch_response (format_output self) merged_result slices
                       (responses st) requests))))"

section \<open>Concrete collaborators for the examples\<close>

text \<open>
  A handler with small stand-ins for the libraries: the parser knows the bodies listed
  here, each with the value \<^verbatim>\<open>json.loads\<close> gives it, and rejects the rest (the examples
  use no other well-formed body); the array constructor rejects a list whose elements
  differ in length, as \<^verbatim>\<open>tf.constant\<close> does for a ragged list; the decoder finds no
  marker; the computation labels every row of its tensor.
\<close>

definition toy_loads :: "string \<Rightarrow> exn + json" where
  \<open>toy_loads s =
     (if s = ''{"instances": [[1, 2]]}'' then
        Inr (JObj [(''instances'', JArr [JArr [JInt 1, JInt 2]])])
      else if s = ''{"instances": [[3]]}'' then
        Inr (JObj [(''instances'', JArr [JArr [JInt 3]])])
      else if s = ''{"instances": [[4, 5], [6, 7]]}'' then
        Inr (JObj [(''instances'', JArr [JArr [JInt 4, JInt 5], JArr [JInt 6, JInt 7]])])
      else if s = ''{"instances": [[1]], "inputs": {"x": [1]}}'' then
        Inr (JObj [(''instances'', JArr [JArr [JInt 1]]),
                   (''inputs'', JObj [(''x'', JArr [JInt 1])])])
      else if s = ''{"inputs": {"x": [1]}}'' then
        Inr (JObj [(''inputs'', JObj [(''x'', JArr [JInt 1])])])
      else if s = ''{"inputs": 0}'' then Inr (JObj [(''inputs'', JInt 0)])
      else if s = ''{}'' then Inr (JObj [])
      else if s = ''{"instances": 5}'' then Inr (JObj [(''instances'', JInt 5)])
      else if s = ''[]'' then Inr (JArr [])
      else Inl JSONDecodeError)\<close>

fun width :: "json \<Rightarrow> nat option" where
  "width (JArr xs) = Some (length xs)"
| "width v = None"

definition toy_constant :: "json \<Rightarrow> exn + json" where
  "toy_constant v =
     (case v of
        JArr (x # xs) \<Rightarrow>
          if list_all (\<lambda>y. width y = width x) xs then Inr v
          else Inl (ValueError ''non-rectangular'')
      | _ \<Rightarrow> Inr v)"

definition toy_func :: "json \<Rightarrow> exn + string list" where
  "toy_func t =
     (case t of
        JArr rows \<Rightarrow> Inr (map (\<lambda>row. ''label'') rows)
      | _ \<Rightarrow> Inl (TypeError ''tensor''))"

text \<open>A computation that raises, and one that returns a single row whatever it is given.\<close>

definition toy_failing :: "json \<Rightarrow> exn + string list" where
  "toy_failing t = Inl (Other ''model failure'')"

definition toy_one_row :: "json \<Rightarrow> exn + string list" where
  "toy_one_row t = Inr [''label'']"

definition toy_single :: "json \<Rightarrow> exn + string" where
  "toy_single t = Inr ''label''"

definition toy_args :: "string list \<Rightarrow> exn + (string \<times> string list)" where
  "toy_args args =
     (case args of
        [flag, v] \<Rightarrow> if flag = ''--input'' then Inr (v, []) else Inl (Other ''usage'')
      | _ \<Rightarrow> Inl (Other ''usage''))"

definition demo :: "(json, string, response) handler" where
  "demo =
     \<lparr>BATCH_REQUEST_HEADER = ''Bentoml-Is-Batch-Request'',
      is_batch_input = True,
      json_loads = toy_loads,
      decode_b64_if_needed = Inr,
      tf_constant = toy_constant,
      decode_utf8 = Inr,
      format_exc = (\<lambda>e. ''Traceback (most recent call last)''),
      parse_known_args = toy_args,
      to_response = (\<lambda>result request. Inr (SimpleResponse 200 None result)),
      to_cli = (\<lambda>result unknown_args. Inr (SimpleResponse 0 None result)),
      to_aws_lambda_event = (\<lambda>result event. Inr (SimpleResponse 200 None result)),
      format_output = (\<lambda>rows request. SimpleResponse 200 None (concat rows))\<rparr>"

definition req :: "string \<Rightarrow> request" where
  "req raw = \<lparr>data = raw, formated_headers = Map.empty\<rparr>"

definition req_flag :: "string \<Rightarrow> string \<Rightarrow> request" where
  "req_flag raw v =
     \<lparr>data = raw, formated_headers = [''bentoml-is-batch-request'' \<mapsto> v]\<rparr>"

text \<open>The example batches and single requests.\<close>

definition row_12 :: string where
  \<open>row_12 = ''{"instances": [[1, 2]]}''\<close>

definition row_3 :: string where
  \<open>row_3 = ''{"instances": [[3]]}''\<close>

definition rows_4567 :: string where
  \<open>rows_4567 = ''{"instances": [[4, 5], [6, 7]]}''\<close>

definition both_fields :: string where
  \<open>both_fields = ''{"instances": [[1]], "inputs": {"x": [1]}}''\<close>

definition column_x :: string where
  \<open>column_x = ''{"inputs": {"x": [1]}}''\<close>

definition column_zero :: string where
  \<open>column_zero = ''{"inputs": 0}''\<close>

definition all_bad :: "request list" where
  "all_bad = [req ''not json'', req ''{'']"

definition mixed :: "request list" where
  "mixed = [req row_12, req ''not json'', req_flag rows_4567 ''true'']"

definition ragged :: "request list" where
  "ragged = [req row_12, req row_3]"

definition ragged_mixed :: "request list" where
  "ragged_mixed = [req row_3, req ''not json'', req rows_4567]"

definition flagged :: "request list" where
  "flagged = [req_flag row_12 ''true'', req_flag row_12 ''false'', req row_12]"

definition with_list_body :: "request list" where
  "with_list_body = [req row_12, req ''[]'']"

definition with_column :: "request list" where
  "with_column = [req row_12, req column_x]"

definition scalar_instances :: string where
  \<open>scalar_instances = ''{"instances": 5}''\<close>

definition with_scalar :: "request list" where
  "with_scalar = [req row_12, req scalar_instances]"

definition with_both :: "request list" where
  "with_both = [req both_fields, req ''not json'']"

definition json_http :: http_request where
  "json_http = \<lparr>content_type = Some ''application/json'', http_data = ''{}''\<rparr>"

definition json_event :: lambda_event where
  "json_event = \<lparr>headers = [''Content-Type'' \<mapsto> ''application/json''], body = ''{}''\<rparr>"

section \<open>Reading one slot of the three lists\<close>

text \<open>
  Slot \<open>i\<close> of the three lists, and the lists having \<open>n\<close> slots each: the vocabulary of
  the statements about the loop.
\<close>

definition slot :: "lists \<Rightarrow> nat \<Rightarrow> json option \<times> response \<times> bool option" where
  "slot st i = (instances_list st ! i, responses st ! i, batch_flags st ! i)"

definition sized :: "nat \<Rightarrow> lists \<Rightarrow> bool" where
  "sized n st =
     (length (instances_list st) = n \<and> length (responses st) = n
        \<and> length (batch_flags st) = n)"

section \<open>Content type in the single-request pipeline\<close>

lemma handle_request_rejects_content_type:
  "content_type request \<noteq> Some ''application/json'' \<Longrightarrow>
     handle_request self request func
       = Inl (BadInput
           ''Request content-type must be 'application/json' for this BentoService API'')"
  by (simp add: handle_request_def)

lemma lambda_rejects_declared_content_type:
  "headers event ''Content-Type'' = Some ct \<Longrightarrow> ct \<noteq> ''application/json'' \<Longrightarrow>
     handle_aws_lambda_event self event func
       = Inl (BentoMLException
           (''BentoML currently doesn't support Content-Type: '' @ ct @ '' for AWS Lambda''))"
  by (simp add: handle_aws_lambda_event_def)

text \<open>
  C7. A request whose content type is not \<^verbatim>\<open>application/json\<close> is to fail at once with
  an input-validation error: \<^verbatim>\<open>BadInput\<close> over HTTP, \<^verbatim>\<open>BentoMLException\<close> for a Lambda
  event. The two lemmas above give this for every HTTP request and for every event that
  carries the header. An event without the header takes the same branch, since the test
  reads the header with a default, and then fails while the message is built: whatever
  the handler, the body and the computation are, the caller gets \<^verbatim>\<open>KeyError\<close>, not
  \<^verbatim>\<open>BentoMLException\<close>.
\<close>

theorem lambda_missing_content_type_raises_key_error:
  "handle_aws_lambda_event self \<lparr>headers = Map.empty, body = b\<rparr> func
     = Inl (KeyError ''Content-Type'')"
  by (simp add: handle_aws_lambda_event_def)

section \<open>The loop fills each slot from its own request\<close>

lemma try_body_sized: "sized n st \<Longrightarrow> sized n (fst (try_body self i r st))"
  by (simp add: try_body_def sized_def Let_def split: sum.splits)

lemma loop_body_sized: "sized n st \<Longrightarrow> sized n (loop_body self i r st)"
  using try_body_sized [of n st self i r]
  by (cases "try_body self i r st") (auto simp: loop_body_def sized_def split: option.splits)

lemma try_body_other: "j \<noteq> i \<Longrightarrow> slot (fst (try_body self i r st)) j = slot st j"
  by (simp add: try_body_def slot_def Let_def split: sum.splits)

lemma loop_body_other: "j \<noteq> i \<Longrightarrow> slot (loop_body self i r st) j = slot st j"
  using try_body_other [of j i self r st]
  by (cases "try_body self i r st") (auto simp: loop_body_def slot_def split: option.splits)

lemma try_body_exn: "snd (try_body self i r st) = snd (try_body self i' r st')"
  by (simp add: try_body_def Let_def split: sum.splits)

lemma try_body_same:
  "sized n st \<Longrightarrow> i < n \<Longrightarrow> sized m st' \<Longrightarrow> i' < m \<Longrightarrow> slot st i = slot st' i' \<Longrightarrow>
     slot (fst (try_body self i r st)) i = slot (fst (try_body self i' r st')) i'"
  by (simp add: try_body_def slot_def sized_def Let_def split: sum.splits)

lemma loop_body_same:
  assumes "sized n st" "i < n" "sized m st'" "i' < m" "slot st i = slot st' i'"
  shows "slot (loop_body self i r st) i = slot (loop_body self i' r st') i'"
proof -
  obtain a x where a: "try_body self i r st = (a, x)" by (cases "try_body self i r st")
  obtain b y where b: "try_body self i' r st' = (b, y)" by (cases "try_body self i' r st'")
  have xy: "x = y" using try_body_exn [of self i r st i' st'] a b by simp
  have ab: "slot a i = slot b i'" using try_body_same [OF assms, of self r] a b by simp
  have sa: "sized n a" using try_body_sized [OF assms(1), of self i r] a by simp
  have sb: "sized m b" using try_body_sized [OF assms(3), of self i' r] b by simp
  show ?thesis
    using ab sa sb assms(2,4)
    by (cases y) (auto simp: loop_body_def a b xy slot_def sized_def)
qed

lemma for_loop_sized: "sized n st \<Longrightarrow> sized n (for_loop self k rs st)"
  by (induction rs arbitrary: k st) (auto simp: loop_body_sized)

lemma for_loop_before: "j < k \<Longrightarrow> slot (for_loop self k rs st) j = slot st j"
proof (induction rs arbitrary: k st)
  case Nil
  then show ?case by simp
next
  case (Cons r rs)
  have "slot (for_loop self (Suc k) rs (loop_body self k r st)) j
          = slot (loop_body self k r st) j"
    using Cons.prems by (intro Cons.IH) simp
  also have "\<dots> = slot st j" using Cons.prems by (simp add: loop_body_other)
  finally show ?case by simp
qed

lemma for_loop_slot:
  "sized n st \<Longrightarrow> k + length rs \<le> n \<Longrightarrow> j < length rs \<Longrightarrow>
     slot (for_loop self k rs st) (k + j) = slot (loop_body self (k + j) (rs ! j) st) (k + j)"
proof (induction rs arbitrary: k st j)
  case Nil
  then show ?case by simp
next
  case (Cons r rs)
  let ?st = "loop_body self k r st"
  have sz: "sized n ?st" using Cons.prems(1) by (rule loop_body_sized)
  show ?case
  proof (cases j)
    case 0
    then show ?thesis by (simp add: for_loop_before)
  next
    case (Suc j')
    have "slot (for_loop self (Suc k) rs ?st) (Suc k + j')
            = slot (loop_body self (Suc k + j') (rs ! j') ?st) (Suc k + j')"
      using Cons.prems Suc by (intro Cons.IH [OF sz]) auto
    also have "\<dots> = slot (loop_body self (Suc k + j') (rs ! j') st) (Suc k + j')"
      using Cons.prems Suc
      by (intro loop_body_same [OF sz _ Cons.prems(1)]) (auto simp: loop_body_other)
    finally show ?thesis using Suc by simp
  qed
qed

lemma init_lists_sized: "sized n (init_lists n)"
  by (simp add: sized_def init_lists_def)

lemma init_lists_slot: "i < n \<Longrightarrow> slot (init_lists n) i = (None, bad_resp, None)"
  by (simp add: slot_def init_lists_def)

lemma prepare_batch_sized: "sized (length reqs) (prepare_batch self reqs)"
  by (simp add: prepare_batch_def for_loop_sized init_lists_sized)

lemma prepare_batch_slot:
  assumes "i < length reqs"
  shows "slot (prepare_batch self reqs) i = slot (prepare_batch self [reqs ! i]) 0"
proof -
  have "slot (prepare_batch self reqs) i
          = slot (loop_body self i (reqs ! i) (init_lists (length reqs))) i"
    using for_loop_slot [OF init_lists_sized, of 0 reqs "length reqs" i self] assms
    by (simp add: prepare_batch_def)
  also have "\<dots> = slot (loop_body self 0 (reqs ! i) (init_lists 1)) 0"
    using assms
    by (intro loop_body_same [OF init_lists_sized _ init_lists_sized])
       (simp_all add: init_lists_slot)
  finally show ?thesis by (simp add: prepare_batch_def)
qed

lemma prepare_batch_single: "prepare_batch self [r] = loop_body self 0 r (init_lists (Suc 0))"
  by (simp add: prepare_batch_def)

lemma prepare_batch_nth:
  assumes "i < length reqs"
  shows "instances_list (prepare_batch self reqs) ! i
           = instances_list (prepare_batch self [reqs ! i]) ! 0"
    and "responses (prepare_batch self reqs) ! i = responses (prepare_batch self [reqs ! i]) ! 0"
    and "batch_flags (prepare_batch self reqs) ! i
           = batch_flags (prepare_batch self [reqs ! i]) ! 0"
  using prepare_batch_slot [OF assms, of self] by (simp_all add: slot_def)

lemma others_unaffected:
  assumes "j < length reqs" "j \<noteq> i"
  shows "slot (prepare_batch self (reqs[i := r'])) j = slot (prepare_batch self reqs) j"
proof -
  have "slot (prepare_batch self (reqs[i := r'])) j
          = slot (prepare_batch self [reqs[i := r'] ! j]) 0"
    using assms by (intro prepare_batch_slot) simp
  also have "\<dots> = slot (prepare_batch self [reqs ! j]) 0" using assms by simp
  also have "\<dots> = slot (prepare_batch self reqs) j"
    using assms by (intro prepare_batch_slot [symmetric])
  finally show ?thesis .
qed

section \<open>What the try statement leaves in a slot\<close>

lemma try_body_raise_frame:
  assumes "try_body self i r st = (st', Some e)"
  shows "instances_list st' = instances_list st" and "responses st' = responses st"
  using assms unfolding try_body_def Let_def
  by (auto split: sum.splits if_splits)

lemma single_raise:
  assumes "snd (try_body self i r st) = Some e"
  shows "instances_list (prepare_batch self [r]) ! 0 = None"
    and "responses (prepare_batch self [r]) ! 0
           = (if e = JSONDecodeError \<or> e = UnicodeDecodeError then bad_resp
              else SimpleResponse 500 None (''Internal Server Error: '' @ format_exc self e))"
proof -
  have "snd (try_body self 0 r (init_lists (Suc 0))) = Some e"
    using assms try_body_exn [of self 0 r "init_lists (Suc 0)" i st] by simp
  then obtain st' where t: "try_body self 0 r (init_lists (Suc 0)) = (st', Some e)"
    by (cases "try_body self 0 r (init_lists (Suc 0))") auto
  have f: "instances_list st' = [None]" "responses st' = [bad_resp]"
    using try_body_raise_frame [OF t] by (simp_all add: init_lists_def)
  show "instances_list (prepare_batch self [r]) ! 0 = None"
    by (simp add: prepare_batch_single loop_body_def t f)
  show "responses (prepare_batch self [r]) ! 0
           = (if e = JSONDecodeError \<or> e = UnicodeDecodeError then bad_resp
              else SimpleResponse 500 None (''Internal Server Error: '' @ format_exc self e))"
    by (simp add: prepare_batch_single loop_body_def t f)
qed

lemma try_body_flag:
  "batch_flags (fst (try_body self 0 r (init_lists (Suc 0)))) ! 0
     = Some (case formated_headers r (lower (BATCH_REQUEST_HEADER self)) of
               None \<Rightarrow> is_batch_input self
             | Some v \<Rightarrow> v = ''true'')"
  unfolding try_body_def Let_def init_lists_def
  by (simp split: sum.splits option.splits)

lemma single_flag:
  "batch_flags (prepare_batch self [r]) ! 0
     = Some (case formated_headers r (lower (BATCH_REQUEST_HEADER self)) of
               None \<Rightarrow> is_batch_input self
             | Some v \<Rightarrow> v = ''true'')"
  using try_body_flag [of self r]
  by (cases "try_body self 0 r (init_lists (Suc 0))")
     (auto simp: prepare_batch_single loop_body_def split: option.splits)

lemma try_body_inputs:
  assumes "json_loads self (data r) = Inr (JObj kvs)"
    and "dict_get kvs ''instances'' = JNull"
  shows "try_body self i r st
           = (if truthy (dict_get kvs ''inputs'')
              then (st\<lparr>batch_flags := (batch_flags st)
                      [i := Some ((case formated_headers r (lower (BATCH_REQUEST_HEADER self)) of
                                     None \<Rightarrow> (if is_batch_input self then ''true'' else ''false'')
                                   | Some v \<Rightarrow> v) = ''true'')],
                      responses := (responses st)
                      [i := SimpleResponse 501 None ''Column format 'inputs' not implemented'']\<rparr>,
                    None)
              else (st\<lparr>batch_flags := (batch_flags st)
                      [i := Some ((case formated_headers r (lower (BATCH_REQUEST_HEADER self)) of
                                     None \<Rightarrow> (if is_batch_input self then ''true'' else ''false'')
                                   | Some v \<Rightarrow> v) = ''true'')]\<rparr>, None))"
  using assms by (simp add: try_body_def Let_def)

lemma single_inputs:
  assumes "json_loads self (data r) = Inr (JObj kvs)"
    and "dict_get kvs ''instances'' = JNull"
  shows "instances_list (prepare_batch self [r]) ! 0 = None"
    and "responses (prepare_batch self [r]) ! 0
           = (if truthy (dict_get kvs ''inputs'')
              then SimpleResponse 501 None ''Column format 'inputs' not implemented''
              else bad_resp)"
  by (simp_all add: prepare_batch_single loop_body_def try_body_inputs [OF assms] init_lists_def)

lemma try_body_instances:
  assumes "json_loads self (data r) = Inr (JObj kvs)"
    and "dict_get kvs ''instances'' \<noteq> JNull"
  shows "instances_list (fst (try_body self i r st))
           = (case decode_b64_if_needed self (dict_get kvs ''instances'') of
                Inl e \<Rightarrow> instances_list st
              | Inr v \<Rightarrow> (instances_list st)[i := Some v])"
    and "responses (fst (try_body self i r st)) = responses st"
  using assms by (simp_all add: try_body_def Let_def split: sum.splits)

lemma single_instances:
  assumes "json_loads self (data r) = Inr (JObj kvs)"
    and "dict_get kvs ''instances'' \<noteq> JNull"
  shows "instances_list (prepare_batch self [r]) ! 0
           = (case decode_b64_if_needed self (dict_get kvs ''instances'') of
                Inl e \<Rightarrow> None | Inr v \<Rightarrow> Some v)"
    and "status (responses (prepare_batch self [r]) ! 0) \<noteq> 501"
proof -
  obtain st' x where t: "try_body self 0 r (init_lists (Suc 0)) = (st', x)"
    by (cases "try_body self 0 r (init_lists (Suc 0))")
  have f: "instances_list st'
             = (case decode_b64_if_needed self (dict_get kvs ''instances'') of
                  Inl e \<Rightarrow> [None] | Inr v \<Rightarrow> [Some v])"
          "responses st' = [bad_resp]"
    using try_body_instances [OF assms, of 0 "init_lists (Suc 0)"] t
    by (simp_all add: init_lists_def split: sum.splits)
  show "instances_list (prepare_batch self [r]) ! 0
           = (case decode_b64_if_needed self (dict_get kvs ''instances'') of
                Inl e \<Rightarrow> None | Inr v \<Rightarrow> Some v)"
    by (cases x) (simp_all add: prepare_batch_single loop_body_def t f split: sum.splits)
  show "status (responses (prepare_batch self [r]) ! 0) \<noteq> 501"
    by (cases x) (simp_all add: prepare_batch_single loop_body_def t f bad_resp_def)
qed

section \<open>Ranges of the merger and positions of the demultiplexer\<close>

lemma range_len_pair [simp]: "range_len (a, b) = b - a"
  by (simp add: range_len_def)

lemma merge_loop_ranges:
  "merge_loop lst fs flat ranges = Inr (flat', ranges') \<Longrightarrow>
     \<exists>new. ranges' = ranges @ new \<and> length new = length lst
         \<and> length flat' = length flat + sum_list (map range_len new)
         \<and> (\<forall>i<length lst. lst ! i = None \<longrightarrow> range_len (new ! i) = 0)"
proof (induction lst fs flat ranges rule: merge_loop.induct)
  case (1 fs flat ranges)
  then show ?case by simp
next
  case (2 r rs flat ranges)
  then show ?case by simp
next
  case (3 rs f fs flat ranges)
  then obtain new where
    n: "ranges' = (ranges @ [(length flat, length flat)]) @ new" "length new = length rs"
       "length flat' = length flat + sum_list (map range_len new)"
       "\<forall>i<length rs. rs ! i = None \<longrightarrow> range_len (new ! i) = 0"
    by auto
  let ?new = "(length flat, length flat) # new"
  have "\<forall>i<length (None # rs). (None # rs) ! i = None \<longrightarrow> range_len (?new ! i) = 0"
    using n(4) by (auto simp: nth_Cons split: nat.splits)
  then show ?case using n(1-3) by (intro exI [of _ ?new]) simp
next
  case (4 r rs f fs flat ranges)
  show ?case
  proof (cases "f = Some True")
    case True
    then obtain xs where r: "r = JArr xs" using "4.prems" by (cases r) auto
    from "4.IH"(1) [OF True r] "4.prems" True r obtain new where
      n: "ranges' = (ranges @ [(length flat, length flat + length xs)]) @ new"
         "length new = length rs"
         "length flat' = length (flat @ xs) + sum_list (map range_len new)"
         "\<forall>i<length rs. rs ! i = None \<longrightarrow> range_len (new ! i) = 0"
      by auto
    let ?new = "(length flat, length flat + length xs) # new"
    have "\<forall>i<length (Some r # rs). (Some r # rs) ! i = None \<longrightarrow> range_len (?new ! i) = 0"
      using n(4) by (auto simp: nth_Cons split: nat.splits)
    then show ?thesis using n(1-3) by (intro exI [of _ ?new]) simp
  next
    case False
    from "4.IH"(2) [OF False] "4.prems" False obtain new where
      n: "ranges' = (ranges @ [(length flat, length flat + 1)]) @ new"
         "length new = length rs"
         "length flat' = length (flat @ [r]) + sum_list (map range_len new)"
         "\<forall>i<length rs. rs ! i = None \<longrightarrow> range_len (new ! i) = 0"
      by auto
    let ?new = "(length flat, length flat + 1) # new"
    have "\<forall>i<length (Some r # rs). (Some r # rs) ! i = None \<longrightarrow> range_len (?new ! i) = 0"
      using n(4) by (auto simp: nth_Cons split: nat.splits)
    then show ?thesis using n(1-3) by (intro exI [of _ ?new]) simp
  qed
qed

lemma concat_list_ranges:
  assumes "concat_list lst fs = Inr (merged, slices)"
  shows "length slices = length lst"
    and "sum_list (map range_len slices) = length merged"
    and "i < length lst \<Longrightarrow> lst ! i = None \<Longrightarrow> range_len (slices ! i) = 0"
  using merge_loop_ranges [of lst fs "[]" "[]" merged slices] assms
  by (auto simp: concat_list_def)

lemma merge_loop_all_none:
  "\<forall>i<length lst. lst ! i = None \<Longrightarrow> length fs = length lst \<Longrightarrow>
     merge_loop lst fs flat ranges
       = Inr (flat, ranges @ replicate (length lst) (length flat, length flat))"
proof (induction lst arbitrary: fs ranges)
  case Nil
  then show ?case by simp
next
  case (Cons x lst)
  obtain f fs' where fs: "fs = f # fs'" using Cons.prems(2) by (cases fs) auto
  have x: "x = None" using Cons.prems(1) by auto
  have rest: "\<forall>i<length lst. lst ! i = None" using Cons.prems(1) by auto
  show ?case
    using Cons.IH [OF rest, of fs' "ranges @ [(length flat, length flat)]"] Cons.prems(2)
    by (simp add: fs x replicate_append_same)
qed

lemma to_batch_response_nth:
  assumes "length result = sum_list (map range_len slices)"
    and "length slices = n" "length fallbacks = n" "length requests = n"
  shows "\<exists>resps. to_batch_response fmt result slices fallbacks requests = Inr resps
           \<and> length resps = n
           \<and> (\<forall>i<n. resps ! i = demux_one fmt result (slices ! i) (fallbacks ! i) (requests ! i))"
  using assms by (simp add: to_batch_response_def)

section \<open>Per-request failures in the batch loop\<close>




text \<open>
  C4. When the \<^verbatim>\<open>try\<close> body of a request raises any exception other than the two parse
  errors (whatever the lists hold at that moment), the loop stores
  \<^verbatim>\<open>SimpleResponse(500, None, "Internal Server Error: " + traceback)\<close> in the slot of
  that request, leaves its slot of \<^verbatim>\<open>instances_list\<close> at \<^verbatim>\<open>None\<close>, and goes on with
  the other requests, whose slots do not depend on this one. The loop itself returns the
  lists and has no way to raise: the exception does not reach the caller.
\<close>

theorem unexpected_exception_gets_500:
  assumes "i < length reqs"
    and "snd (try_body self i (reqs ! i) st) = Some e"
    and "e \<noteq> JSONDecodeError" and "e \<noteq> UnicodeDecodeError"
  shows "responses (prepare_batch self reqs) ! i
           = SimpleResponse 500 None (''Internal Server Error: '' @ format_exc self e)
       \<and> instances_list (prepare_batch self reqs) ! i = None
       \<and> (\<forall>j r'. j < length reqs \<and> j \<noteq> i
             \<longrightarrow> slot (prepare_batch self (reqs[i := r'])) j = slot (prepare_batch self reqs) j)"
proof -
  let ?st = "prepare_batch self reqs"
  have inst: "instances_list ?st ! i = None"
    using prepare_batch_nth(1) [OF assms(1), of self] single_raise(1) [OF assms(2)] by simp
  have resp: "responses ?st ! i
                = SimpleResponse 500 None (''Internal Server Error: '' @ format_exc self e)"
    using prepare_batch_nth(2) [OF assms(1), of self] single_raise(2) [OF assms(2)] assms(3,4)
    by simp
  show ?thesis using inst resp others_unaffected by blast
qed

text \<open>
  Witness for C4: the body \<^verbatim>\<open>[]\<close> parses to a list, which has no \<^verbatim>\<open>get\<close>; the
  \<^verbatim>\<open>AttributeError\<close> becomes the 500 response of the second request.
\<close>

theorem unexpected_exception_gets_500_witness:
  "(1::nat) < length with_list_body
   \<and> snd (try_body demo 1 (with_list_body ! 1) (init_lists 2)) = Some (AttributeError ''get'')
   \<and> AttributeError ''get'' \<noteq> JSONDecodeError
   \<and> AttributeError ''get'' \<noteq> UnicodeDecodeError
   \<and> responses (prepare_batch demo with_list_body) ! 1
        = SimpleResponse 500 None
            (''Internal Server Error: '' @ format_exc demo (AttributeError ''get''))
   \<and> instances_list (prepare_batch demo with_list_body) ! 1 = None
   \<and> (0::nat) < length with_list_body
   \<and> slot (prepare_batch demo (with_list_body[1 := req column_x])) 0
        = slot (prepare_batch demo with_list_body) 0"
proof -
  have h1: "(1::nat) < length with_list_body" by (simp add: with_list_body_def)
  have h2: "snd (try_body demo 1 (with_list_body ! 1) (init_lists 2))
              = Some (AttributeError ''get'')"
    by code_simp
  have h3: "AttributeError ''get'' \<noteq> JSONDecodeError" by simp
  have h4: "AttributeError ''get'' \<noteq> UnicodeDecodeError" by simp
  have h5: "(0::nat) < length with_list_body \<and> (0::nat) \<noteq> 1"
    by (simp add: with_list_body_def)
  show ?thesis
    using unexpected_exception_gets_500 [OF h1 h2 h3 h4] h1 h2 h3 h4 h5 by blast
qed

text \<open>
  C5, as amended. A request of a batch whose payload is an object with no \<^verbatim>\<open>instances\<close>
  (missing or \<^verbatim>\<open>null\<close>) and with an \<^verbatim>\<open>inputs\<close> value that Python counts as true gets
  \<^verbatim>\<open>SimpleResponse(501, None, "Column format 'inputs' not implemented")\<close>, contributes
  nothing to the merge, and leaves the slots of the other requests as they are.
\<close>

theorem truthy_inputs_without_instances_gets_501:
  assumes "i < length reqs"
    and "json_loads self (data (reqs ! i)) = Inr (JObj kvs)"
    and "dict_get kvs ''instances'' = JNull"
    and "truthy (dict_get kvs ''inputs'')"
  shows "responses (prepare_batch self reqs) ! i
           = SimpleResponse 501 None ''Column format 'inputs' not implemented''
       \<and> instances_list (prepare_batch self reqs) ! i = None
       \<and> (\<forall>j r'. j < length reqs \<and> j \<noteq> i
             \<longrightarrow> slot (prepare_batch self (reqs[i := r'])) j = slot (prepare_batch self reqs) j)"
proof -
  let ?st = "prepare_batch self reqs"
  have inst: "instances_list ?st ! i = None"
    using prepare_batch_nth(1) [OF assms(1), of self] single_inputs(1) [OF assms(2,3)] by simp
  have resp: "responses ?st ! i
                = SimpleResponse 501 None ''Column format 'inputs' not implemented''"
    using prepare_batch_nth(2) [OF assms(1), of self] single_inputs(2) [OF assms(2,3)] assms(4)
    by simp
  show ?thesis using inst resp others_unaffected by blast
qed

text \<open>Witness for C5 as amended: the second request sends \<^verbatim>\<open>{"inputs": {"x": [1]}}\<close>.\<close>

theorem truthy_inputs_without_instances_gets_501_witness:
  "(1::nat) < length with_column
   \<and> json_loads demo (data (with_column ! 1)) = Inr (JObj [(''inputs'', JObj [(''x'', JArr [JInt 1])])])
   \<and> dict_get [(''inputs'', JObj [(''x'', JArr [JInt 1])])] ''instances'' = JNull
   \<and> truthy (dict_get [(''inputs'', JObj [(''x'', JArr [JInt 1])])] ''inputs'')
   \<and> responses (prepare_batch demo with_column) ! 1
        = SimpleResponse 501 None ''Column format 'inputs' not implemented''
   \<and> instances_list (prepare_batch demo with_column) ! 1 = None
   \<and> (0::nat) < length with_column
   \<and> slot (prepare_batch demo (with_column[1 := req ''not json''])) 0
        = slot (prepare_batch demo with_column) 0"
proof -
  have h1: "(1::nat) < length with_column" by (simp add: with_column_def)
  have h2: "json_loads demo (data (with_column ! 1))
              = Inr (JObj [(''inputs'', JObj [(''x'', JArr [JInt 1])])])"
    by code_simp
  have h3: "dict_get [(''inputs'', JObj [(''x'', JArr [JInt 1])])] ''instances'' = JNull"
    by code_simp
  have h4: "truthy (dict_get [(''inputs'', JObj [(''x'', JArr [JInt 1])])] ''inputs'')"
    by code_simp
  have h5: "(0::nat) < length with_column \<and> (0::nat) \<noteq> 1" by (simp add: with_column_def)
  show ?thesis
    using truthy_inputs_without_instances_gets_501 [OF h1 h2 h3 h4] h1 h2 h3 h4 h5 by blast
qed

text \<open>
  Counterexample to C5 as stated: the payload \<^verbatim>\<open>{"inputs": 0}\<close> has the \<^verbatim>\<open>inputs\<close> field
  and no \<^verbatim>\<open>instances\<close> field, and the request gets the 400 response, not the 501
  response: the source tests the truth value of \<^verbatim>\<open>inputs\<close>, not its presence (the same
  holds for \<^verbatim>\<open>[]\<close>, \<^verbatim>\<open>{}\<close>, \<^verbatim>\<open>""\<close> and \<^verbatim>\<open>false\<close>).
\<close>

theorem falsy_inputs_gets_400_not_501:
  "json_loads demo (data (req column_zero)) = Inr (JObj [(''inputs'', JInt 0)])
   \<and> map_of [(''inputs'', JInt 0)] ''inputs'' = Some (JInt 0)
   \<and> map_of [(''inputs'', JInt 0)] ''instances'' = None
   \<and> responses (prepare_batch demo [req column_zero]) ! 0
        = SimpleResponse 400 None ''input format error''"
  by code_simp

section \<open>The batch flag\<close>

text \<open>
  C6. The flag stored for request \<open>i\<close> of a batch comes from the override header, looked
  up under the lower-cased header name: the value \<^verbatim>\<open>"true"\<close> gives true, the value
  \<^verbatim>\<open>"false"\<close> gives false, and a request without the header gets the handler's
  \<^verbatim>\<open>is_batch_input\<close> setting.
\<close>

theorem batch_flag_from_header_or_config:
  assumes "i < length reqs"
  shows "(formated_headers (reqs ! i) (lower (BATCH_REQUEST_HEADER self)) = Some ''true''
            \<longrightarrow> batch_flags (prepare_batch self reqs) ! i = Some True)
       \<and> (formated_headers (reqs ! i) (lower (BATCH_REQUEST_HEADER self)) = Some ''false''
            \<longrightarrow> batch_flags (prepare_batch self reqs) ! i = Some False)
       \<and> (formated_headers (reqs ! i) (lower (BATCH_REQUEST_HEADER self)) = None
            \<longrightarrow> batch_flags (prepare_batch self reqs) ! i = Some (is_batch_input self))"
  using prepare_batch_nth(3) [OF assms, of self] single_flag [of self "reqs ! i"]
  by simp

text \<open>
  Witness for C6: three requests, with the header \<^verbatim>\<open>true\<close>, with the header \<^verbatim>\<open>false\<close>
  and without it.
\<close>

theorem batch_flag_from_header_or_config_witness:
  "(0::nat) < length flagged \<and> (1::nat) < length flagged \<and> (2::nat) < length flagged
   \<and> formated_headers (flagged ! 0) (lower (BATCH_REQUEST_HEADER demo)) = Some ''true''
   \<and> batch_flags (prepare_batch demo flagged) ! 0 = Some True
   \<and> formated_headers (flagged ! 1) (lower (BATCH_REQUEST_HEADER demo)) = Some ''false''
   \<and> batch_flags (prepare_batch demo flagged) ! 1 = Some False
   \<and> formated_headers (flagged ! 2) (lower (BATCH_REQUEST_HEADER demo)) = None
   \<and> batch_flags (prepare_batch demo flagged) ! 2 = Some (is_batch_input demo)"
proof -
  have l: "(0::nat) < length flagged" "(1::nat) < length flagged" "(2::nat) < length flagged"
    by (simp_all add: flagged_def)
  have h0: "formated_headers (flagged ! 0) (lower (BATCH_REQUEST_HEADER demo)) = Some ''true''"
    by code_simp
  have h1: "formated_headers (flagged ! 1) (lower (BATCH_REQUEST_HEADER demo)) = Some ''false''"
    by code_simp
  have h2: "formated_headers (flagged ! 2) (lower (BATCH_REQUEST_HEADER demo)) = None"
    by code_simp
  show ?thesis
    using batch_flag_from_header_or_config [OF l(1), of demo]
      batch_flag_from_header_or_config [OF l(2), of demo]
      batch_flag_from_header_or_config [OF l(3), of demo] l h0 h1 h2
    by blast
qed

section \<open>The batch as a whole: merge, one invocation, responses\<close>

lemma single_status: "status (responses (prepare_batch self [r]) ! 0) \<in> {400, 500, 501}"
proof (cases "snd (try_body self 0 r (init_lists (Suc 0)))")
  case (Some e)
  then show ?thesis using single_raise(2) [OF Some] by (simp add: bad_resp_def)
next
  case None
  then obtain st' where t: "try_body self 0 r (init_lists (Suc 0)) = (st', None)"
    by (cases "try_body self 0 r (init_lists (Suc 0))") auto
  have "status (responses st' ! 0) \<in> {400, 500, 501}"
    using t unfolding try_body_def Let_def init_lists_def
    by (auto simp: bad_resp_def split: sum.splits if_splits)
  then show ?thesis by (simp add: prepare_batch_single loop_body_def t)
qed

lemma fallback_status:
  "i < length reqs \<Longrightarrow> status (responses (prepare_batch self reqs) ! i) \<in> {400, 500, 501}"
  using prepare_batch_nth(2) [of i reqs self] single_status [of self "reqs ! i"] by simp

lemma concat_list_all_none:
  assumes "\<forall>i<length lst. lst ! i = None" and "length fs = length lst"
  shows "concat_list lst fs = Inr ([], replicate (length lst) (0, 0))"
  using merge_loop_all_none [OF assms, of "[]" "[]"] by (simp add: concat_list_def)

lemma demux_all_fallbacks:
  assumes "length fallbacks = n" and "length requests = n"
  shows "to_batch_response fmt [] (replicate n (0, 0)) fallbacks requests = Inr fallbacks"
proof -
  have "map (\<lambda>(rg, fallback, request). demux_one fmt [] rg fallback request)
          (zip (replicate n (0, 0)) (zip fallbacks requests)) = fallbacks"
    using assms by (intro nth_equalityI) (simp_all add: demux_one_def)
  moreover have "sum_list (map range_len (replicate n (0, 0))) = 0"
    by (induction n) simp_all
  ultimately show ?thesis by (simp add: to_batch_response_def)
qed

text \<open>
  C1, as amended. When no request of the batch contributed an instance list (every slot
  of \<^verbatim>\<open>instances_list\<close> is still \<^verbatim>\<open>None\<close>), the merged flat sequence is empty and
  every range is \<open>(0, 0)\<close>; the handler has no test for this and goes on: once
  \<^verbatim>\<open>tf.constant\<close> has built the array from the empty sequence, \<^verbatim>\<open>func\<close> is called
  exactly once, with that array. If \<^verbatim>\<open>func\<close> returns an empty result, the caller gets
  the recorded fallbacks, one per request and in request order, each with status 400,
  500 or 501.
\<close>

theorem empty_merge_still_invokes_func:
  assumes "instances_list (prepare_batch self reqs) = replicate (length reqs) None"
    and "tf_constant self (JArr []) = Inr t"
  shows "concat_list (instances_list (prepare_batch self reqs))
             (batch_flags (prepare_batch self reqs))
           = Inr ([], replicate (length reqs) (0, 0))
       \<and> fst (handle_batch_request self reqs func) = [t]
       \<and> (func t = Inr []
            \<longrightarrow> snd (handle_batch_request self reqs func)
                  = Inr (responses (prepare_batch self reqs))
              \<and> length (responses (prepare_batch self reqs)) = length reqs
              \<and> (\<forall>i<length reqs.
                    status (responses (prepare_batch self reqs) ! i) \<in> {400, 500, 501}))"
proof -
  let ?st = "prepare_batch self reqs"
  have sz: "sized (length reqs) ?st" by (rule prepare_batch_sized)
  have len: "length (instances_list ?st) = length reqs" "length (responses ?st) = length reqs"
    "length (batch_flags ?st) = length reqs"
    using sz by (simp_all add: sized_def)
  have merge: "concat_list (instances_list ?st) (batch_flags ?st)
                 = Inr ([], replicate (length reqs) (0, 0))"
    using concat_list_all_none [of "instances_list ?st" "batch_flags ?st"] assms(1) len(3)
    by simp
  have calls: "fst (handle_batch_request self reqs func) = [t]"
    by (simp add: handle_batch_request_def Let_def merge assms(2) split: sum.splits)
  have out: "snd (handle_batch_request self reqs func) = Inr (responses ?st)"
    if "func t = Inr []"
    using demux_all_fallbacks [OF len(2) refl, of "format_output self"] that
    by (simp add: handle_batch_request_def Let_def merge assms(2))
  show ?thesis using merge calls out len(2) fallback_status by blast
qed

text \<open>Witness for C1 as amended: a batch of two bodies that are not JSON.\<close>

theorem empty_merge_still_invokes_func_witness:
  "instances_list (prepare_batch demo all_bad) = replicate (length all_bad) None
   \<and> tf_constant demo (JArr []) = Inr (JArr [])
   \<and> concat_list (instances_list (prepare_batch demo all_bad))
          (batch_flags (prepare_batch demo all_bad))
        = Inr ([], replicate (length all_bad) (0, 0))
   \<and> fst (handle_batch_request demo all_bad toy_func) = [JArr []]
   \<and> toy_func (JArr []) = Inr []
   \<and> snd (handle_batch_request demo all_bad toy_func) = Inr (responses (prepare_batch demo all_bad))
   \<and> length (responses (prepare_batch demo all_bad)) = length all_bad
   \<and> (1::nat) < length all_bad
   \<and> status (responses (prepare_batch demo all_bad) ! 1) \<in> {400, 500, 501}"
proof -
  have n: "length all_bad = 2" by (simp add: all_bad_def)
  have h1: "instances_list (prepare_batch demo all_bad) = replicate (length all_bad) None"
    by code_simp
  have h2: "tf_constant demo (JArr []) = Inr (JArr [])" by code_simp
  have h3: "toy_func (JArr []) = Inr []" by code_simp
  have h4: "(1::nat) < length all_bad" by (simp add: n)
  show ?thesis
    using empty_merge_still_invokes_func [OF h1 h2, of toy_func] h1 h2 h3 h4 by blast
qed

text \<open>
  Counterexample to C1 as stated: both requests of the batch are malformed, nothing is
  merged, and \<^verbatim>\<open>func\<close> is called all the same, once, with the array of the empty
  sequence.
\<close>

theorem all_malformed_batch_invokes_func:
  "json_loads demo (data (all_bad ! 0)) = Inl JSONDecodeError
   \<and> json_loads demo (data (all_bad ! 1)) = Inl JSONDecodeError
   \<and> instances_list (prepare_batch demo all_bad) = [None, None]
   \<and> fst (handle_batch_request demo all_bad toy_func) = [JArr []]"
  by code_simp

text \<open>
  C8, as amended. Whenever the merge and the construction of the combined array succeed,
  \<^verbatim>\<open>func\<close> is called exactly once, with the array built from the merged flat sequence
  as its only argument; if it raises, the exception leaves the handler, and if it
  returns, its result goes unchanged to \<^verbatim>\<open>to_batch_response\<close> together with the
  ranges, the fallbacks and the requests. When the merge fails, or the construction of
  the array fails, \<^verbatim>\<open>func\<close> is not called at all and the failure leaves the handler.
\<close>

theorem batch_outcome_after_merge:
  "(concat_list (instances_list (prepare_batch self reqs))
        (batch_flags (prepare_batch self reqs)) = Inr (merged, slices)
      \<and> tf_constant self (JArr merged) = Inr t
     \<longrightarrow> fst (handle_batch_request self reqs func) = [t]
       \<and> snd (handle_batch_request self reqs func)
           = (case func t of
                Inl e \<Rightarrow> Inl e
              | Inr merged_result \<Rightarrow>
                  to_batch_response (format_output self) merged_result slices
                    (responses (prepare_batch self reqs)) reqs))
   \<and> (concat_list (instances_list (prepare_batch self reqs))
        (batch_flags (prepare_batch self reqs)) = Inl e
     \<longrightarrow> handle_batch_request self reqs func = ([], Inl e))
   \<and> (concat_list (instances_list (prepare_batch self reqs))
        (batch_flags (prepare_batch self reqs)) = Inr (merged, slices)
      \<and> tf_constant self (JArr merged) = Inl e
     \<longrightarrow> handle_batch_request self reqs func = ([], Inl e))"
  by (simp add: handle_batch_request_def Let_def split: sum.splits)

text \<open>
  Witness for C8 as amended: two good requests around a malformed one (one call); a
  batch whose second request sends the number 5 as its instances, which the merger
  cannot unpack (no call); a batch of two requests whose instances differ in length, so
  that the array cannot be built (no call).
\<close>

theorem batch_outcome_after_merge_witness:
  "concat_list (instances_list (prepare_batch demo mixed)) (batch_flags (prepare_batch demo mixed))
     = Inr ([JArr [JInt 1, JInt 2], JArr [JInt 4, JInt 5], JArr [JInt 6, JInt 7]],
            [(0, 1), (1, 1), (1, 3)])
   \<and> tf_constant demo (JArr [JArr [JInt 1, JInt 2], JArr [JInt 4, JInt 5], JArr [JInt 6, JInt 7]])
        = Inr (JArr [JArr [JInt 1, JInt 2], JArr [JInt 4, JInt 5], JArr [JInt 6, JInt 7]])
   \<and> fst (handle_batch_request demo mixed toy_func)
        = [JArr [JArr [JInt 1, JInt 2], JArr [JInt 4, JInt 5], JArr [JInt 6, JInt 7]]]
   \<and> snd (handle_batch_request demo mixed toy_func)
        = (case toy_func
                  (JArr [JArr [JInt 1, JInt 2], JArr [JInt 4, JInt 5], JArr [JInt 6, JInt 7]]) of
             Inl e \<Rightarrow> Inl e
           | Inr merged_result \<Rightarrow>
               to_batch_response (format_output demo) merged_result [(0, 1), (1, 1), (1, 3)]
                 (responses (prepare_batch demo mixed)) mixed)
   \<and> concat_list (instances_list (prepare_batch demo with_scalar))
          (batch_flags (prepare_batch demo with_scalar)) = Inl (TypeError ''instances'')
   \<and> handle_batch_request demo with_scalar toy_func = ([], Inl (TypeError ''instances''))
   \<and> concat_list (instances_list (prepare_batch demo ragged))
          (batch_flags (prepare_batch demo ragged))
        = Inr ([JArr [JInt 1, JInt 2], JArr [JInt 3]], [(0, 1), (1, 2)])
   \<and> tf_constant demo (JArr [JArr [JInt 1, JInt 2], JArr [JInt 3]])
        = Inl (ValueError ''non-rectangular'')
   \<and> handle_batch_request demo ragged toy_func = ([], Inl (ValueError ''non-rectangular''))"
proof -
  have h1: "concat_list (instances_list (prepare_batch demo mixed))
              (batch_flags (prepare_batch demo mixed))
            = Inr ([JArr [JInt 1, JInt 2], JArr [JInt 4, JInt 5], JArr [JInt 6, JInt 7]],
                   [(0, 1), (1, 1), (1, 3)])"
    by code_simp
  have h2: "tf_constant demo
              (JArr [JArr [JInt 1, JInt 2], JArr [JInt 4, JInt 5], JArr [JInt 6, JInt 7]])
            = Inr (JArr [JArr [JInt 1, JInt 2], JArr [JInt 4, JInt 5], JArr [JInt 6, JInt 7]])"
    by code_simp
  have h3: "concat_list (instances_list (prepare_batch demo with_scalar))
              (batch_flags (prepare_batch demo with_scalar)) = Inl (TypeError ''instances'')"
    by code_simp
  have h4: "concat_list (instances_list (prepare_batch demo ragged))
              (batch_flags (prepare_batch demo ragged))
            = Inr ([JArr [JInt 1, JInt 2], JArr [JInt 3]], [(0, 1), (1, 2)])"
    by code_simp
  have h5: "tf_constant demo (JArr [JArr [JInt 1, JInt 2], JArr [JInt 3]])
            = Inl (ValueError ''non-rectangular'')"
    by code_simp
  note invoked =
    batch_outcome_after_merge [where self = demo and reqs = mixed and func = toy_func
      and merged = "[JArr [JInt 1, JInt 2], JArr [JInt 4, JInt 5], JArr [JInt 6, JInt 7]]"
      and slices = "[(0, 1), (1, 1), (1, 3)]"
      and t = "JArr [JArr [JInt 1, JInt 2], JArr [JInt 4, JInt 5], JArr [JInt 6, JInt 7]]",
      THEN conjunct1, rule_format, OF conjI, OF h1 h2]
  note no_merge =
    batch_outcome_after_merge [where self = demo and reqs = with_scalar and func = toy_func
      and e = "TypeError ''instances''", THEN conjunct2, THEN conjunct1, rule_format, OF h3]
  note no_array =
    batch_outcome_after_merge [where self = demo and reqs = ragged and func = toy_func
      and merged = "[JArr [JInt 1, JInt 2], JArr [JInt 3]]" and slices = "[(0, 1), (1, 2)]"
      and e = "ValueError ''non-rectangular''",
      THEN conjunct2, THEN conjunct2, rule_format, OF conjI, OF h4 h5]
  show ?thesis
    using invoked no_merge no_array h1 h2 h3 h4 h5 by blast
qed

text \<open>
  Counterexample to C8 as stated: the instances of the first and the third request
  differ in length, the merged sequence is ragged, the array constructor raises, and
  \<^verbatim>\<open>func\<close> is not called at all in this batch call.
\<close>

theorem ragged_batch_never_invokes_func:
  "concat_list (instances_list (prepare_batch demo ragged_mixed))
       (batch_flags (prepare_batch demo ragged_mixed))
     = Inr ([JArr [JInt 3], JArr [JInt 4, JInt 5], JArr [JInt 6, JInt 7]],
            [(0, 1), (1, 1), (1, 3)])
   \<and> handle_batch_request demo ragged_mixed toy_func = ([], Inl (ValueError ''non-rectangular''))"
  by code_simp

text \<open>
  C2, as amended. Whenever the merge and the construction of the array succeed and
  \<^verbatim>\<open>func\<close> returns a result whose outer dimension is the length of the flat sequence,
  the handler returns exactly as many responses as there are requests; position \<open>i\<close>
  holds the fallback recorded for request \<open>i\<close> or the slice of the result that the
  range of request \<open>i\<close> gives, formatted with request \<open>i\<close>: one of the two, never
  both, never neither. In every other case (the merge fails, the array cannot be built,
  \<^verbatim>\<open>func\<close> raises, or the outer dimension of its result differs) the call fails as a
  whole and returns no response.
\<close>

theorem responses_in_request_order:
  "(concat_list (instances_list (prepare_batch self reqs))
        (batch_flags (prepare_batch self reqs)) = Inr (merged, slices)
      \<and> tf_constant self (JArr merged) = Inr t
      \<and> func t = Inr result
      \<and> length result = length merged
     \<longrightarrow> (case snd (handle_batch_request self reqs func) of
           Inl e \<Rightarrow> False
         | Inr resps \<Rightarrow>
             length resps = length reqs
           \<and> (\<forall>i<length reqs.
                 resps ! i
                   = (if range_len (slices ! i) = 0 then responses (prepare_batch self reqs) ! i
                      else format_output self
                             (take (range_len (slices ! i)) (drop (fst (slices ! i)) result))
                             (reqs ! i)))))
   \<and> (concat_list (instances_list (prepare_batch self reqs))
        (batch_flags (prepare_batch self reqs)) = Inl e
     \<longrightarrow> snd (handle_batch_request self reqs func) = Inl e)
   \<and> (concat_list (instances_list (prepare_batch self reqs))
        (batch_flags (prepare_batch self reqs)) = Inr (merged, slices)
      \<and> tf_constant self (JArr merged) = Inl e
     \<longrightarrow> snd (handle_batch_request self reqs func) = Inl e)
   \<and> (concat_list (instances_list (prepare_batch self reqs))
        (batch_flags (prepare_batch self reqs)) = Inr (merged, slices)
      \<and> tf_constant self (JArr merged) = Inr t
      \<and> func t = Inl e
     \<longrightarrow> snd (handle_batch_request self reqs func) = Inl e)
   \<and> (concat_list (instances_list (prepare_batch self reqs))
        (batch_flags (prepare_batch self reqs)) = Inr (merged, slices)
      \<and> tf_constant self (JArr merged) = Inr t
      \<and> func t = Inr result
      \<and> length result \<noteq> length merged
     \<longrightarrow> snd (handle_batch_request self reqs func) = Inl ShapeMismatch)"
proof -
  let ?st = "prepare_batch self reqs"
  let ?merge = "concat_list (instances_list ?st) (batch_flags ?st)"
  let ?out = "snd (handle_batch_request self reqs func)"
  have sz: "sized (length reqs) ?st" by (rule prepare_batch_sized)
  have len: "length (instances_list ?st) = length reqs" "length (responses ?st) = length reqs"
    using sz by (simp_all add: sized_def)
  have emitted:
    "case ?out of
       Inl e \<Rightarrow> False
     | Inr resps \<Rightarrow>
         length resps = length reqs
       \<and> (\<forall>i<length reqs.
             resps ! i
               = (if range_len (slices ! i) = 0 then responses ?st ! i
                  else format_output self
                         (take (range_len (slices ! i)) (drop (fst (slices ! i)) result))
                         (reqs ! i)))"
    if m: "?merge = Inr (merged, slices)" and c: "tf_constant self (JArr merged) = Inr t"
      and f: "func t = Inr result" and d: "length result = length merged"
  proof -
    have sl: "length slices = length reqs"
      using concat_list_ranges(1) [OF m] len(1) by simp
    have total: "length result = sum_list (map range_len slices)"
      using concat_list_ranges(2) [OF m] d by simp
    obtain resps where r:
      "to_batch_response (format_output self) result slices (responses ?st) reqs = Inr resps"
      "length resps = length reqs"
      "\<forall>i<length reqs. resps ! i
          = demux_one (format_output self) result (slices ! i) (responses ?st ! i) (reqs ! i)"
      using to_batch_response_nth [OF total sl len(2) refl, of "format_output self"] by blast
    have out: "?out = Inr resps"
      by (simp add: handle_batch_request_def Let_def m c f r(1))
    show ?thesis using r(2,3) by (simp add: out demux_one_def)
  qed
  have no_merge: "?out = Inl e" if "?merge = Inl e"
    using that by (simp add: handle_batch_request_def Let_def)
  have no_array: "?out = Inl e"
    if "?merge = Inr (merged, slices)" and "tf_constant self (JArr merged) = Inl e"
    using that by (simp add: handle_batch_request_def Let_def)
  have no_result: "?out = Inl e"
    if "?merge = Inr (merged, slices)" and "tf_constant self (JArr merged) = Inr t"
      and "func t = Inl e"
    using that by (simp add: handle_batch_request_def Let_def)
  have mismatch: "?out = Inl ShapeMismatch"
    if m: "?merge = Inr (merged, slices)" and c: "tf_constant self (JArr merged) = Inr t"
      and f: "func t = Inr result" and d: "length result \<noteq> length merged"
  proof -
    have "length result \<noteq> sum_list (map range_len slices)"
      using concat_list_ranges(2) [OF m] d by simp
    then show ?thesis
      by (simp add: handle_batch_request_def Let_def m c f to_batch_response_def)
  qed
  show ?thesis
    using emitted no_merge no_array no_result mismatch by (intro conjI impI) blast+
qed

text \<open>
  Witness for C2 as amended. Of three requests the second is malformed, and the
  responses are a slice of one row, the 400 fallback and a slice of two rows. The four
  ways to fail: a request whose instances are the number 5, which the merger cannot
  unpack; two requests whose instances differ in length; a computation that raises; a
  computation that returns one row for three instances.
\<close>

theorem responses_in_request_order_witness:
  "concat_list (instances_list (prepare_batch demo mixed)) (batch_flags (prepare_batch demo mixed))
     = Inr ([JArr [JInt 1, JInt 2], JArr [JInt 4, JInt 5], JArr [JInt 6, JInt 7]],
            [(0, 1), (1, 1), (1, 3)])
   \<and> tf_constant demo (JArr [JArr [JInt 1, JInt 2], JArr [JInt 4, JInt 5], JArr [JInt 6, JInt 7]])
        = Inr (JArr [JArr [JInt 1, JInt 2], JArr [JInt 4, JInt 5], JArr [JInt 6, JInt 7]])
   \<and> toy_func (JArr [JArr [JInt 1, JInt 2], JArr [JInt 4, JInt 5], JArr [JInt 6, JInt 7]])
        = Inr [''label'', ''label'', ''label'']
   \<and> length [''label'', ''label'', ''label'']
        = length [JArr [JInt 1, JInt 2], JArr [JInt 4, JInt 5], JArr [JInt 6, JInt 7]]
   \<and> snd (handle_batch_request demo mixed toy_func)
        = Inr [SimpleResponse 200 None ''label'',
               SimpleResponse 400 None ''input format error'',
               SimpleResponse 200 None ''labellabel'']
   \<and> length [SimpleResponse 200 None ''label'',
              SimpleResponse 400 None ''input format error'',
              SimpleResponse 200 None ''labellabel''] = length mixed
   \<and> (1::nat) < length mixed
   \<and> [SimpleResponse 200 None ''label'',
        SimpleResponse 400 None ''input format error'',
        SimpleResponse 200 None ''labellabel''] ! 1
        = (if range_len ([(0, 1), (1, 1), (1, 3)] ! 1) = 0
           then responses (prepare_batch demo mixed) ! 1
           else format_output demo
                  (take (range_len ([(0, 1), (1, 1), (1, 3)] ! 1))
                     (drop (fst ([(0, 1::nat), (1, 1), (1, 3)] ! 1)) [''label'', ''label'', ''label'']))
                  (mixed ! 1))
   \<and> (2::nat) < length mixed
   \<and> [SimpleResponse 200 None ''label'',
        SimpleResponse 400 None ''input format error'',
        SimpleResponse 200 None ''labellabel''] ! 2
        = (if range_len ([(0, 1), (1, 1), (1, 3)] ! 2) = 0
           then responses (prepare_batch demo mixed) ! 2
           else format_output demo
                  (take (range_len ([(0, 1), (1, 1), (1, 3)] ! 2))
                     (drop (fst ([(0, 1::nat), (1, 1), (1, 3)] ! 2)) [''label'', ''label'', ''label'']))
                  (mixed ! 2))
   \<and> concat_list (instances_list (prepare_batch demo with_scalar))
          (batch_flags (prepare_batch demo with_scalar)) = Inl (TypeError ''instances'')
   \<and> snd (handle_batch_request demo with_scalar toy_func) = Inl (TypeError ''instances'')
   \<and> concat_list (instances_list (prepare_batch demo ragged_mixed))
          (batch_flags (prepare_batch demo ragged_mixed))
        = Inr ([JArr [JInt 3], JArr [JInt 4, JInt 5], JArr [JInt 6, JInt 7]],
               [(0, 1), (1, 1), (1, 3)])
   \<and> tf_constant demo (JArr [JArr [JInt 3], JArr [JInt 4, JInt 5], JArr [JInt 6, JInt 7]])
        = Inl (ValueError ''non-rectangular'')
   \<and> snd (handle_batch_request demo ragged_mixed toy_func) = Inl (ValueError ''non-rectangular'')
   \<and> toy_failing (JArr [JArr [JInt 1, JInt 2], JArr [JInt 4, JInt 5], JArr [JInt 6, JInt 7]])
        = Inl (Other ''model failure'')
   \<and> snd (handle_batch_request demo mixed toy_failing) = Inl (Other ''model failure'')
   \<and> toy_one_row (JArr [JArr [JInt 1, JInt 2], JArr [JInt 4, JInt 5], JArr [JInt 6, JInt 7]])
        = Inr [''label'']
   \<and> length [''label'']
        \<noteq> length [JArr [JInt 1, JInt 2], JArr [JInt 4, JInt 5], JArr [JInt 6, JInt 7]]
   \<and> snd (handle_batch_request demo mixed toy_one_row) = Inl ShapeMismatch"
proof -
  let ?rows = "[JArr [JInt 1, JInt 2], JArr [JInt 4, JInt 5], JArr [JInt 6, JInt 7]]"
  let ?ranges = "[(0::nat, 1::nat), (1, 1), (1, 3)]"
  let ?resps = "[SimpleResponse 200 None ''label'',
                 SimpleResponse 400 None ''input format error'',
                 SimpleResponse 200 None ''labellabel'']"
  let ?bad_rows = "[JArr [JInt 3], JArr [JInt 4, JInt 5], JArr [JInt 6, JInt 7]]"
  have h1: "concat_list (instances_list (prepare_batch demo mixed))
              (batch_flags (prepare_batch demo mixed)) = Inr (?rows, ?ranges)"
    by code_simp
  have h2: "tf_constant demo (JArr ?rows) = Inr (JArr ?rows)" by code_simp
  have h3: "toy_func (JArr ?rows) = Inr [''label'', ''label'', ''label'']" by code_simp
  have h4: "length [''label'', ''label'', ''label''] = length ?rows" by simp
  have out: "snd (handle_batch_request demo mixed toy_func) = Inr ?resps" by code_simp
  have h5: "(1::nat) < length mixed" "(2::nat) < length mixed" by (simp_all add: mixed_def)
  have m1: "concat_list (instances_list (prepare_batch demo with_scalar))
              (batch_flags (prepare_batch demo with_scalar)) = Inl (TypeError ''instances'')"
    by code_simp
  have a1: "concat_list (instances_list (prepare_batch demo ragged_mixed))
              (batch_flags (prepare_batch demo ragged_mixed)) = Inr (?bad_rows, ?ranges)"
    by code_simp
  have a2: "tf_constant demo (JArr ?bad_rows) = Inl (ValueError ''non-rectangular'')"
    by code_simp
  have f1: "toy_failing (JArr ?rows) = Inl (Other ''model failure'')"
    by (simp add: toy_failing_def)
  have s1: "toy_one_row (JArr ?rows) = Inr [''label'']" by (simp add: toy_one_row_def)
  have s2: "length [''label''] \<noteq> length ?rows" by simp
  note emitted =
    responses_in_request_order [where self = demo and reqs = mixed and func = toy_func
      and merged = ?rows and slices = ?ranges and t = "JArr ?rows"
      and result = "[''label'', ''label'', ''label'']",
      THEN conjunct1, rule_format, OF conjI, OF h1 conjI, OF h2 conjI, OF h3 h4,
      unfolded out sum.case]
  have len: "length ?resps = length mixed" using emitted by (rule conjunct1)
  have second: "?resps ! 1
        = (if range_len (?ranges ! 1) = 0 then responses (prepare_batch demo mixed) ! 1
           else format_output demo
                  (take (range_len (?ranges ! 1))
                     (drop (fst (?ranges ! 1)) [''label'', ''label'', ''label'']))
                  (mixed ! 1))"
    using emitted h5(1) by blast
  have third: "?resps ! 2
        = (if range_len (?ranges ! 2) = 0 then responses (prepare_batch demo mixed) ! 2
           else format_output demo
                  (take (range_len (?ranges ! 2))
                     (drop (fst (?ranges ! 2)) [''label'', ''label'', ''label'']))
                  (mixed ! 2))"
    using emitted h5(2) by blast
  note no_merge =
    responses_in_request_order [where self = demo and reqs = with_scalar and func = toy_func
      and e = "TypeError ''instances''",
      THEN conjunct2, THEN conjunct1, rule_format, OF m1]
  note no_array =
    responses_in_request_order [where self = demo and reqs = ragged_mixed and func = toy_func
      and merged = ?bad_rows and slices = ?ranges and e = "ValueError ''non-rectangular''",
      THEN conjunct2, THEN conjunct2, THEN conjunct1, rule_format, OF conjI, OF a1 a2]
  note no_result =
    responses_in_request_order [where self = demo and reqs = mixed and func = toy_failing
      and merged = ?rows and slices = ?ranges and t = "JArr ?rows"
      and e = "Other ''model failure''",
      THEN conjunct2, THEN conjunct2, THEN conjunct2, THEN conjunct1, rule_format,
      OF conjI, OF h1 conjI, OF h2 f1]
  note mismatch =
    responses_in_request_order [where self = demo and reqs = mixed and func = toy_one_row
      and merged = ?rows and slices = ?ranges and t = "JArr ?rows" and result = "[''label'']",
      THEN conjunct2, THEN conjunct2, THEN conjunct2, THEN conjunct2, rule_format,
      OF conjI, OF h1 conjI, OF h2 conjI, OF s1 s2]
  show ?thesis
    by (intro conjI)
       (rule h1 h2 h3 h4 out len h5 second third m1 no_merge a1 a2 no_array f1 no_result
          s1 s2 mismatch)+
qed

text \<open>
  Counterexample to C2 as stated: two requests that are each well formed, with
  instances of different lengths; the array constructor raises and the call returns no
  response at all. The same happens to a batch that merges well when the computation
  raises.
\<close>

theorem ragged_batch_emits_no_response:
  "instances_list (prepare_batch demo ragged)
     = [Some (JArr [JArr [JInt 1, JInt 2]]), Some (JArr [JArr [JInt 3]])]
   \<and> snd (handle_batch_request demo ragged toy_func) = Inl (ValueError ''non-rectangular'')
   \<and> snd (handle_batch_request demo mixed toy_failing) = Inl (Other ''model failure'')"
  by code_simp

section \<open>The payload fields in the single-request pipeline\<close>

lemma handle_raw_str_object:
  assumes "json_loads self raw = Inr (JObj kvs)"
  shows "handle_raw_str self raw func
           = (if dict_get kvs ''instances'' \<noteq> JNull then
                (case decode_b64_if_needed self (dict_get kvs ''instances'') of
                   Inl e \<Rightarrow> Inl e
                 | Inr instances \<Rightarrow>
                     (case tf_constant self instances of
                        Inl e \<Rightarrow> Inl e
                      | Inr parsed_tensor \<Rightarrow> func parsed_tensor))
              else if truthy (dict_get kvs ''inputs'') then
                Inl (NotImplementedError ''column format 'inputs' is not implemented'')
              else Inl (UnboundLocalError ''parsed_tensor''))"
  using assms by (simp add: handle_raw_str_def)

text \<open>
  C9, as amended. When the payload parses to an object that has neither an
  \<^verbatim>\<open>instances\<close> value other than \<^verbatim>\<open>null\<close> nor a true \<^verbatim>\<open>inputs\<close> value,
  \<^verbatim>\<open>_handle_raw_str\<close> reaches the call of \<^verbatim>\<open>func\<close> with \<^verbatim>\<open>parsed_tensor\<close> unassigned
  and fails with \<^verbatim>\<open>UnboundLocalError\<close>, whatever \<^verbatim>\<open>func\<close> is; \<^verbatim>\<open>handle_request\<close>,
  \<^verbatim>\<open>handle_cli\<close> and \<^verbatim>\<open>handle_aws_lambda_event\<close> hand the same exception to their caller.
\<close>

theorem neither_field_raises_unbound_local:
  assumes "json_loads self raw = Inr (JObj kvs)"
    and "dict_get kvs ''instances'' = JNull"
    and "\<not> truthy (dict_get kvs ''inputs'')"
    and "content_type request = Some ''application/json''"
    and "decode_utf8 self (http_data request) = Inr raw"
    and "parse_known_args self args = Inr (raw, unknown_args)"
    and "headers event ''Content-Type'' = Some ''application/json''"
    and "body event = raw"
  shows "handle_raw_str self raw func = Inl (UnboundLocalError ''parsed_tensor'')
       \<and> handle_request self request func = Inl (UnboundLocalError ''parsed_tensor'')
       \<and> handle_cli self args func = Inl (UnboundLocalError ''parsed_tensor'')
       \<and> handle_aws_lambda_event self event func = Inl (UnboundLocalError ''parsed_tensor'')"
proof -
  have raw: "handle_raw_str self raw func = Inl (UnboundLocalError ''parsed_tensor'')"
    using handle_raw_str_object [OF assms(1), of func] assms(2,3) by simp
  have http: "handle_request self request func = Inl (UnboundLocalError ''parsed_tensor'')"
    by (simp add: handle_request_def assms(4,5) raw)
  have cli: "handle_cli self args func = Inl (UnboundLocalError ''parsed_tensor'')"
    by (simp add: handle_cli_def assms(6) raw)
  have lam: "handle_aws_lambda_event self event func
               = Inl (UnboundLocalError ''parsed_tensor'')"
    using raw by (simp add: handle_aws_lambda_event_def assms(7,8))
  show ?thesis using raw http cli lam by blast
qed

text \<open>Witness for C9 as amended: the payload \<^verbatim>\<open>{}\<close> on each of the three channels.\<close>

theorem neither_field_raises_unbound_local_witness:
  "json_loads demo ''{}'' = Inr (JObj [])
   \<and> dict_get [] ''instances'' = JNull
   \<and> \<not> truthy (dict_get [] ''inputs'')
   \<and> content_type json_http = Some ''application/json''
   \<and> decode_utf8 demo (http_data json_http) = Inr ''{}''
   \<and> parse_known_args demo [''--input'', ''{}''] = Inr (''{}'', [])
   \<and> headers json_event ''Content-Type'' = Some ''application/json''
   \<and> body json_event = ''{}''
   \<and> handle_raw_str demo ''{}'' toy_single = Inl (UnboundLocalError ''parsed_tensor'')
   \<and> handle_request demo json_http toy_single = Inl (UnboundLocalError ''parsed_tensor'')
   \<and> handle_cli demo [''--input'', ''{}''] toy_single = Inl (UnboundLocalError ''parsed_tensor'')
   \<and> handle_aws_lambda_event demo json_event toy_single
        = Inl (UnboundLocalError ''parsed_tensor'')"
proof -
  have h1: "json_loads demo ''{}'' = Inr (JObj [])" by code_simp
  have h2: "dict_get [] ''instances'' = JNull" by code_simp
  have h3: "\<not> truthy (dict_get [] ''inputs'')" by code_simp
  have h4: "content_type json_http = Some ''application/json''" by code_simp
  have h5: "decode_utf8 demo (http_data json_http) = Inr ''{}''" by code_simp
  have h6: "parse_known_args demo [''--input'', ''{}''] = Inr (''{}'', [])" by code_simp
  have h7: "headers json_event ''Content-Type'' = Some ''application/json''" by code_simp
  have h8: "body json_event = ''{}''" by code_simp
  show ?thesis
    using neither_field_raises_unbound_local [OF h1 h2 h3 h4 h5 h6 h7 h8, of toy_single]
      h1 h2 h3 h4 h5 h6 h7 h8
    by blast
qed

text \<open>
  Counterexample to C9 as stated: the payload \<^verbatim>\<open>[]\<close> parses as JSON and contains
  neither field, and the failure is the \<^verbatim>\<open>AttributeError\<close> of \<^verbatim>\<open>parsed_json.get\<close> on a
  list, raised before the line that reads \<^verbatim>\<open>parsed_tensor\<close>.
\<close>

theorem list_payload_raises_attribute_error:
  "json_loads demo ''[]'' = Inr (JArr [])
   \<and> handle_raw_str demo ''[]'' toy_single = Inl (AttributeError ''get'')"
  by code_simp

text \<open>
  C10. When the payload is an object whose \<^verbatim>\<open>instances\<close> value is not \<^verbatim>\<open>null\<close>, both
  pipelines take the row path whatever the \<^verbatim>\<open>inputs\<close> field holds: the single-request
  pipeline returns what decoding, array construction and \<^verbatim>\<open>func\<close> give for the
  instances, and the batch loop stores the decoded instances for the merge and does not
  record the 501 response. So the not-implemented error can only come up when
  \<^verbatim>\<open>instances\<close> is missing or \<^verbatim>\<open>null\<close>.
\<close>

theorem instances_win_over_inputs:
  assumes "json_loads self raw = Inr (JObj kvs)"
    and "dict_get kvs ''instances'' \<noteq> JNull"
    and "i < length reqs"
    and "data (reqs ! i) = raw"
  shows "handle_raw_str self raw func
           = (case decode_b64_if_needed self (dict_get kvs ''instances'') of
                Inl e \<Rightarrow> Inl e
              | Inr instances \<Rightarrow>
                  (case tf_constant self instances of
                     Inl e \<Rightarrow> Inl e
                   | Inr parsed_tensor \<Rightarrow> func parsed_tensor))
       \<and> instances_list (prepare_batch self reqs) ! i
           = (case decode_b64_if_needed self (dict_get kvs ''instances'') of
                Inl e \<Rightarrow> None
              | Inr instances \<Rightarrow> Some instances)
       \<and> status (responses (prepare_batch self reqs) ! i) \<noteq> 501"
proof -
  have parsed: "json_loads self (data (reqs ! i)) = Inr (JObj kvs)"
    using assms(1,4) by simp
  have single: "handle_raw_str self raw func
           = (case decode_b64_if_needed self (dict_get kvs ''instances'') of
                Inl e \<Rightarrow> Inl e
              | Inr instances \<Rightarrow>
                  (case tf_constant self instances of
                     Inl e \<Rightarrow> Inl e
                   | Inr parsed_tensor \<Rightarrow> func parsed_tensor))"
    using handle_raw_str_object [OF assms(1), of func] assms(2) by simp
  have inst: "instances_list (prepare_batch self reqs) ! i
           = (case decode_b64_if_needed self (dict_get kvs ''instances'') of
                Inl e \<Rightarrow> None
              | Inr instances \<Rightarrow> Some instances)"
    using prepare_batch_nth(1) [OF assms(3), of self] single_instances(1) [OF parsed assms(2)]
    by simp
  have resp: "status (responses (prepare_batch self reqs) ! i) \<noteq> 501"
    using prepare_batch_nth(2) [OF assms(3), of self] single_instances(2) [OF parsed assms(2)]
    by simp
  show ?thesis using single inst resp by blast
qed

text \<open>
  Witness for C10: a payload with both fields, \<^verbatim>\<open>inputs\<close> being true, alone and as the
  first request of a batch.
\<close>

theorem instances_win_over_inputs_witness:
  "json_loads demo both_fields
     = Inr (JObj [(''instances'', JArr [JArr [JInt 1]]),
                  (''inputs'', JObj [(''x'', JArr [JInt 1])])])
   \<and> dict_get [(''instances'', JArr [JArr [JInt 1]]),
                (''inputs'', JObj [(''x'', JArr [JInt 1])])] ''instances'' \<noteq> JNull
   \<and> truthy (dict_get [(''instances'', JArr [JArr [JInt 1]]),
                        (''inputs'', JObj [(''x'', JArr [JInt 1])])] ''inputs'')
   \<and> (0::nat) < length with_both
   \<and> data (with_both ! 0) = both_fields
   \<and> handle_raw_str demo both_fields toy_single = Inr ''label''
   \<and> instances_list (prepare_batch demo with_both) ! 0 = Some (JArr [JArr [JInt 1]])
   \<and> status (responses (prepare_batch demo with_both) ! 0) \<noteq> 501"
proof -
  let ?kvs = "[(''instances'', JArr [JArr [JInt 1]]),
               (''inputs'', JObj [(''x'', JArr [JInt 1])])]"
  have h1: "json_loads demo both_fields = Inr (JObj ?kvs)" by code_simp
  have h2: "dict_get ?kvs ''instances'' \<noteq> JNull" by code_simp
  have h3: "(0::nat) < length with_both" by (simp add: with_both_def)
  have h4: "data (with_both ! 0) = both_fields" by (simp add: with_both_def req_def)
  have t: "truthy (dict_get ?kvs ''inputs'')" by code_simp
  have v: "dict_get ?kvs ''instances'' = JArr [JArr [JInt 1]]" by code_simp
  have d: "decode_b64_if_needed demo (JArr [JArr [JInt 1]]) = Inr (JArr [JArr [JInt 1]])"
    by (simp add: demo_def)
  have c: "tf_constant demo (JArr [JArr [JInt 1]]) = Inr (JArr [JArr [JInt 1]])"
    by code_simp
  have f: "toy_single (JArr [JArr [JInt 1]]) = Inr ''label''" by (simp add: toy_single_def)
  note at_both = instances_win_over_inputs [OF h1 h2 h3 h4, of toy_single]
  have single: "handle_raw_str demo both_fields toy_single = Inr ''label''"
    using at_both by (simp add: v d c f)
  have inst: "instances_list (prepare_batch demo with_both) ! 0 = Some (JArr [JArr [JInt 1]])"
    using at_both by (simp add: v d)
  have resp: "status (responses (prepare_batch demo with_both) ! 0) \<noteq> 501"
    using at_both by blast
  show ?thesis
    using h1 h2 h3 h4 t single inst resp by blast
qed

end
